theory Spec2Isabelle
  imports Main "HOL-Library.Sublist"
begin

section \<open>The schema provisioning script \<^verbatim>\<open>create_schemas.py\<close>\<close>

text \<open>
  The script holds two literal DDL texts, sends each of them to two databases through
  \<^verbatim>\<open>docker exec postgres psql\<close>, prints progress lines and leaves with
  \<^verbatim>\<open>sys.exit(1)\<close> at the first invocation that reports failure.

  Strings are byte strings: a character beyond ASCII (the marker glyphs of the progress
  lines) is written as the bytes of its UTF-8 encoding, as a UTF-8 console receives it.
\<close>

subsection \<open>The schema texts\<close>

text \<open>
  A triple-quoted Python literal that opens right before a line break: the text starts
  with a newline and every line of it ends with one.
\<close>

definition unlines :: "string list \<Rightarrow> string" where
  "unlines ls = concat (map (\<lambda>l. l @ ''\<newline>'') ls)"

definition FOOTBALL_SCHEMA_SQL :: string where
  "FOOTBALL_SCHEMA_SQL = unlines
    ['''',
     ''DROP TABLE IF EXISTS raw_pl_matches CASCADE;'',
     '''',
     ''CREATE TABLE raw_pl_matches ('',
     ''    id SERIAL PRIMARY KEY,'',
     ''    league_division VARCHAR(10) NOT NULL,'',
     ''    match_date DATE NOT NULL,'',
     ''    kickoff_time TIME,'',
     ''    home_team VARCHAR(100) NOT NULL,'',
     ''    away_team VARCHAR(100) NOT NULL,'',
     ''    ft_home_goals INTEGER,'',
     ''    ft_away_goals INTEGER,'',
     ''    ft_result VARCHAR(1),'',
     ''    ht_home_goals INTEGER,'',
     ''    ht_away_goals INTEGER,'',
     ''    ht_result VARCHAR(1),'',
     ''    referee VARCHAR(100),'',
     ''    home_shots INTEGER,'',
     ''    away_shots INTEGER,'',
     ''    home_shots_on_target INTEGER,'',
     ''    away_shots_on_target INTEGER,'',
     ''    home_corners INTEGER,'',
     ''    away_corners INTEGER,'',
     ''    home_fouls INTEGER,'',
     ''    away_fouls INTEGER,'',
     ''    home_yellow_cards INTEGER,'',
     ''    away_yellow_cards INTEGER,'',
     ''    home_red_cards INTEGER,'',
     ''    away_red_cards INTEGER,'',
     ''    bet365_home_odds DECIMAL(5, 2),'',
     ''    bet365_draw_odds DECIMAL(5, 2),'',
     ''    bet365_away_odds DECIMAL(5, 2),'',
     ''    bet365_over_2_5 DECIMAL(5, 2),'',
     ''    bet365_under_2_5 DECIMAL(5, 2),'',
     ''    asian_handicap DECIMAL(4, 1),'',
     ''    bet365_ah_home_odds DECIMAL(5, 2),'',
     ''    bet365_ah_away_odds DECIMAL(5, 2),'',
     ''    season VARCHAR(10) DEFAULT '2526','',
     ''    data_source VARCHAR(50) DEFAULT 'football-data.co.uk','',
     ''    created_at TIMESTAMP DEFAULT CURRENT_TIMESTAMP,'',
     ''    updated_at TIMESTAMP DEFAULT CURRENT_TIMESTAMP'',
     '');'',
     '''',
     ''CREATE INDEX idx_raw_pl_matches_date ON raw_pl_matches(match_date);'',
     ''CREATE INDEX idx_raw_pl_matches_home ON raw_pl_matches(home_team);'',
     ''CREATE INDEX idx_raw_pl_matches_away ON raw_pl_matches(away_team);'',
     ''CREATE INDEX idx_raw_pl_matches_league ON raw_pl_matches(league_division);'']"

definition HOUSING_SCHEMA_SQL :: string where
  "HOUSING_SCHEMA_SQL = unlines
    ['''',
     ''CREATE SCHEMA IF NOT EXISTS raw;'',
     ''CREATE SCHEMA IF NOT EXISTS staging;'',
     ''CREATE SCHEMA IF NOT EXISTS marts;'',
     '''',
     ''GRANT ALL PRIVILEGES ON SCHEMA raw TO dataeng;'',
     ''GRANT ALL PRIVILEGES ON SCHEMA staging TO dataeng;'',
     ''GRANT ALL PRIVILEGES ON SCHEMA marts TO dataeng;'',
     '''',
     ''CREATE TABLE IF NOT EXISTS raw.listings ('',
     ''    listing_id VARCHAR(50) NOT NULL,'',
     ''    url TEXT NOT NULL,'',
     ''    title TEXT,'',
     ''    property_type VARCHAR(50),'',
     ''    typology VARCHAR(10),'',
     ''    price_eur NUMERIC(12, 2),'',
     ''    price_per_m2 NUMERIC(10, 2),'',
     ''    area_m2 NUMERIC(10, 2),'',
     ''    full_address TEXT,'',
     ''    city VARCHAR(200),'',
     ''    province VARCHAR(200),'',
     ''    district VARCHAR(100),'',
     ''    agency_name VARCHAR(200),'',
     ''    scraped_at TIMESTAMP NOT NULL,'',
     ''    inserted_at TIMESTAMP DEFAULT CURRENT_TIMESTAMP,'',
     ''    CONSTRAINT pk_raw_listings PRIMARY KEY (listing_id, scraped_at)'',
     '');'',
     '''',
     ''CREATE INDEX IF NOT EXISTS idx_raw_listings_scraped_at ON raw.listings(scraped_at DESC);'',
     ''CREATE INDEX IF NOT EXISTS idx_raw_listings_city ON raw.listings(city);'',
     ''CREATE INDEX IF NOT EXISTS idx_raw_listings_province ON raw.listings(province);'',
     ''CREATE INDEX IF NOT EXISTS idx_raw_listings_price ON raw.listings(price_eur) WHERE price_eur IS NOT NULL;'',
     ''CREATE INDEX IF NOT EXISTS idx_raw_listings_url ON raw.listings(url);'',
     '''',
     ''CREATE OR REPLACE VIEW raw.listings_latest AS'',
     ''SELECT DISTINCT ON (listing_id)'',
     ''    listing_id, url, title, property_type, typology,'',
     ''    price_eur, price_per_m2, area_m2,'',
     ''    full_address, city, province, district, agency_name,'',
     ''    scraped_at, inserted_at'',
     ''FROM raw.listings'',
     ''ORDER BY listing_id, scraped_at DESC;'',
     '''',
     ''CREATE TABLE IF NOT EXISTS staging.price_history ('',
     ''    id SERIAL PRIMARY KEY,'',
     ''    listing_id VARCHAR(50) NOT NULL,'',
     ''    url TEXT NOT NULL,'',
     ''    price_eur NUMERIC(12, 2),'',
     ''    price_per_m2 NUMERIC(10, 2),'',
     ''    scraped_at TIMESTAMP NOT NULL,'',
     ''    created_at TIMESTAMP DEFAULT CURRENT_TIMESTAMP,'',
     ''    CONSTRAINT uq_price_history UNIQUE (listing_id, scraped_at)'',
     '');'',
     '''',
     ''CREATE INDEX IF NOT EXISTS idx_price_history_listing ON staging.price_history(listing_id);'',
     '''',
     ''COMMENT ON SCHEMA raw IS 'Raw data as ingested from Imovirtual';'',
     ''COMMENT ON SCHEMA staging IS 'Intermediate transformations via dbt';'',
     ''COMMENT ON SCHEMA marts IS 'Final analytics-ready tables via dbt';'',
     ''COMMENT ON TABLE raw.listings IS 'All listing snapshots - one row per listing per scrape date';'',
     ''COMMENT ON VIEW raw.listings_latest IS 'Latest snapshot of each listing';'']"

subsection \<open>Marker glyphs\<close>

text \<open>U+274C, U+2705, U+1F527, U+1F4CA and U+1F3E0 in UTF-8.\<close>

definition CROSS_MARK :: string where
  "CROSS_MARK = [CHR 0xE2, CHR 0x9D, CHR 0x8C]"

definition CHECK_MARK :: string where
  "CHECK_MARK = [CHR 0xE2, CHR 0x9C, CHR 0x85]"

definition WRENCH :: string where
  "WRENCH = [CHR 0xF0, CHR 0x9F, CHR 0x94, CHR 0xA7]"

definition BAR_CHART :: string where
  "BAR_CHART = [CHR 0xF0, CHR 0x9F, CHR 0x93, CHR 0x8A]"

definition HOUSE :: string where
  "HOUSE = [CHR 0xF0, CHR 0x9F, CHR 0x8F, CHR 0xA0]"

subsection \<open>The external process and the state of a run\<close>

text \<open>
  What \<^verbatim>\<open>subprocess.run(cmd, capture_output=True, text=True)\<close> hands back: the
  exit status of the process and its two captured streams.
\<close>

record completed_process =
  returncode :: int
  stdout :: string
  stderr :: string

text \<open>
  The world outside the script (the container runtime, the database server and the
  databases) is a state of an arbitrary type \<open>'w\<close>. Running a command in it gives the
  completed process and the world afterwards; nothing is assumed about either, so the
  same command may succeed once and fail the next time. A command that cannot be
  started and a process that never exits are outside the model: there
  \<^verbatim>\<open>subprocess.run\<close> raises or blocks, and the script handles neither.
\<close>

type_synonym 'w subprocess_run = "'w \<Rightarrow> string list \<Rightarrow> completed_process \<times> 'w"

text \<open>
  The state of a run: the world, the lines printed so far (one entry per call of
  \<^verbatim>\<open>print\<close>, without the line break that ends it) and the history of the commands
  run so far, each with the completed process it gave. The history is not a variable of
  the script: it records the script's effects on the world, in order.
\<close>

record 'w state =
  world :: 'w
  console :: "string list"
  history :: "(string list \<times> completed_process) list"

definition initial :: "'w \<Rightarrow> 'w state" where
  "initial w = \<lparr>world = w, console = [], history = []\<rparr>"

definition print_line :: "string \<Rightarrow> 'w state \<Rightarrow> 'w state" where
  "print_line l s = s\<lparr>console := console s @ [l]\<rparr>"

subsection \<open>\<^verbatim>\<open>execute_sql\<close>\<close>

definition psql_cmd :: "string \<Rightarrow> string \<Rightarrow> string list" where
  "psql_cmd database sql =
     [''docker'', ''exec'', ''postgres'',
      ''psql'', ''-U'', ''postgres'', ''-d'', database,
      ''-c'', sql]"

definition execute_sql :: "'w subprocess_run \<Rightarrow> string \<Rightarrow> string \<Rightarrow> 'w state \<Rightarrow> bool \<times> 'w state" where
  "execute_sql run database sql s =
     (let cmd = psql_cmd database sql;
          (result, w') = run (world s) cmd;
          s' = s\<lparr>world := w', history := history s @ [(cmd, result)]\<rparr>
      in if returncode result \<noteq> 0
         then (False, print_line (CROSS_MARK @ '' Error in '' @ database @ '': '' @ stderr result) s')
         else (True, s'))"

subsection \<open>\<^verbatim>\<open>main\<close>\<close>

text \<open>
  A call either returns or leaves through \<^verbatim>\<open>sys.exit\<close>; both carry the state
  reached.
\<close>

datatype 'w outcome = Returned "'w state" | SystemExit int "'w state"

fun football_loop :: "'w subprocess_run \<Rightarrow> string list \<Rightarrow> 'w state \<Rightarrow> 'w outcome" where
  "football_loop run [] s = Returned s"
| "football_loop run (env # envs) s =
     (let db = ''football_data_'' @ env;
          s1 = print_line (''  Creating schema in '' @ db @ ''...'') s;
          (success, s2) = execute_sql run db FOOTBALL_SCHEMA_SQL s1
      in if success
         then football_loop run envs
                (print_line (''  '' @ CHECK_MARK @ '' '' @ db @ '' schema created'') s2)
         else SystemExit 1
                (print_line (''  '' @ CROSS_MARK @ '' '' @ db @ '' schema failed'') s2))"

fun housing_loop :: "'w subprocess_run \<Rightarrow> string list \<Rightarrow> 'w state \<Rightarrow> 'w outcome" where
  "housing_loop run [] s = Returned s"
| "housing_loop run (env # envs) s =
     (let db = ''portugal_houses_'' @ env;
          s1 = print_line (''  Creating schema in '' @ db @ ''...'') s;
          (success, s2) = execute_sql run db HOUSING_SCHEMA_SQL s1
      in if success
         then housing_loop run envs
                (print_line (''  '' @ CHECK_MARK @ '' '' @ db @ '' schema created'') s2)
         else SystemExit 1
                (print_line (''  '' @ CROSS_MARK @ '' '' @ db @ '' schema failed'') s2))"

definition main :: "'w subprocess_run \<Rightarrow> 'w state \<Rightarrow> 'w outcome" where
  "main run s =
     (let s1 = print_line (WRENCH @ '' Creating database schemas...'') s;
          s2 = print_line (''\<newline>'' @ BAR_CHART @ '' Football Data:'') s1
      in case football_loop run [''dev'', ''prod''] s2 of
           SystemExit n s' \<Rightarrow> SystemExit n s'
         | Returned s3 \<Rightarrow>
             (let s4 = print_line (''\<newline>'' @ HOUSE @ '' Housing Market:'') s3
              in case housing_loop run [''dev'', ''prod''] s4 of
                   SystemExit n s' \<Rightarrow> SystemExit n s'
                 | Returned s5 \<Rightarrow>
                     Returned (print_line (''\<newline>'' @ CHECK_MARK @ '' All schemas created successfully!'') s5)))"

text \<open>
  The script as a process: \<^verbatim>\<open>main()\<close> from the initial state. Returning from
  \<^verbatim>\<open>main\<close> ends the process with status 0, \<^verbatim>\<open>sys.exit(n)\<close> with status
  \<open>n\<close>.
\<close>

definition script :: "'w subprocess_run \<Rightarrow> 'w \<Rightarrow> 'w outcome" where
  "script run w = main run (initial w)"

fun exit_status :: "'w outcome \<Rightarrow> int" where
  "exit_status (Returned s) = 0"
| "exit_status (SystemExit n s) = n"

fun final :: "'w outcome \<Rightarrow> 'w state" where
  "final (Returned s) = s"
| "final (SystemExit n s) = s"

subsection \<open>Reading a run\<close>

text \<open>
  The targets in the order in which \<^verbatim>\<open>main\<close> reaches them, each with the text it is
  sent: both football databases, then both housing databases.
\<close>

definition targets :: "(string \<times> string) list" where
  "targets =
     [(''football_data_dev'', FOOTBALL_SCHEMA_SQL),
      (''football_data_prod'', FOOTBALL_SCHEMA_SQL),
      (''portugal_houses_dev'', HOUSING_SCHEMA_SQL),
      (''portugal_houses_prod'', HOUSING_SCHEMA_SQL)]"

text \<open>
  The database and the statement text of a command line built by \<open>psql_cmd\<close>: the
  arguments after \<^verbatim>\<open>-d\<close> and after \<^verbatim>\<open>-c\<close>.
\<close>

definition target_of :: "string list \<Rightarrow> string" where
  "target_of cmd = cmd ! 7"

definition sql_of :: "string list \<Rightarrow> string" where
  "sql_of cmd = cmd ! 9"

text \<open>The progress lines, as the f-strings of the source compose them.\<close>

definition creating_line :: "string \<Rightarrow> string" where
  "creating_line db = ''  Creating schema in '' @ db @ ''...''"

definition created_line :: "string \<Rightarrow> string" where
  "created_line db = ''  '' @ CHECK_MARK @ '' '' @ db @ '' schema created''"

definition failed_line :: "string \<Rightarrow> string" where
  "failed_line db = ''  '' @ CROSS_MARK @ '' '' @ db @ '' schema failed''"

definition error_line :: "string \<Rightarrow> string \<Rightarrow> string" where
  "error_line db err = CROSS_MARK @ '' Error in '' @ db @ '': '' @ err"

text \<open>
  Two worlds to run the script in. In the first every command exits with status 0 and
  writes a notice to its standard error, as \<^verbatim>\<open>psql\<close> does for
  \<^verbatim>\<open>DROP TABLE IF EXISTS\<close> on a table that is not there. The second counts the
  commands run and lets command number \<open>n\<close> (from 0) exit with status 2.
\<close>

definition always_ok :: "unit subprocess_run" where
  "always_ok w cmd =
     (\<lparr>returncode = 0, stdout = ''CREATE INDEX'',
       stderr = ''NOTICE:  table does not exist, skipping''\<rparr>, w)"

definition failing_at :: "nat \<Rightarrow> nat subprocess_run" where
  "failing_at n w cmd =
     (if w = n
      then (\<lparr>returncode = 2, stdout = '''', stderr = ''connection refused''\<rparr>, Suc w)
      else (\<lparr>returncode = 0, stdout = ''CREATE INDEX'', stderr = ''''\<rparr>, Suc w))"

text \<open>A third world: every command exits with status \<open>n\<close> and writes nothing.\<close>

definition exits_silently :: "int \<Rightarrow> unit subprocess_run" where
  "exits_silently n w cmd = (\<lparr>returncode = n, stdout = '''', stderr = ''''\<rparr>, w)"

text \<open>
  The naming rule in the words of the specification: the dataset name and the
  environment tag joined by an underscore, where the football dataset alone has another
  prefix, \<^verbatim>\<open>football_data\<close>.
\<close>

definition spec_target :: "string \<Rightarrow> string \<Rightarrow> string" where
  "spec_target dataset env =
     (if dataset = ''football'' then ''football_data'' else dataset) @ ''_'' @ env"

subsection \<open>Reading a schema text\<close>

text \<open>
  \<^verbatim>\<open>psql -c\<close> hands the whole text to the server, which reads it as a sequence of
  statements, each ended by a semicolon. Neither text has a semicolon inside a quoted
  literal or a comment, so the statements are the pieces between the semicolons, without
  the white space before them; the piece after the last semicolon is white space only.
\<close>

fun split_on :: "char \<Rightarrow> string \<Rightarrow> string list" where
  "split_on d [] = [[]]"
| "split_on d (c # cs) =
     (if c = d then [] # split_on d cs
      else (case split_on d cs of p # ps \<Rightarrow> (c # p) # ps | [] \<Rightarrow> [[c]]))"

definition is_space :: "char \<Rightarrow> bool" where
  "is_space c = (c = CHR '' '' \<or> c = CHR ''\<newline>'')"

definition sql_statements :: "string \<Rightarrow> string list" where
  "sql_statements sql =
     filter (\<lambda>st. st \<noteq> []) (map (dropWhile is_space) (split_on CHR '';'' sql))"

text \<open>The first line of a statement, and the tests on a statement used below.\<close>

definition first_line :: "string \<Rightarrow> string" where
  "first_line st = takeWhile (\<lambda>c. c \<noteq> CHR ''\<newline>'') st"

fun starts_with :: "string \<Rightarrow> string \<Rightarrow> bool" where
  "starts_with [] s = True"
| "starts_with (p # ps) [] = False"
| "starts_with (p # ps) (c # cs) = (if p = c then starts_with ps cs else False)"

fun contains :: "string \<Rightarrow> string \<Rightarrow> bool" where
  "contains p [] = (p = [])"
| "contains p (c # cs) = (if starts_with p (c # cs) then True else contains p cs)"

text \<open>
  The number of statements of a text that start with a keyword, and whether some
  statement that starts with a keyword has a clause in it.
\<close>

definition count_statements :: "string \<Rightarrow> string \<Rightarrow> nat" where
  "count_statements keyword sql = length (filter (starts_with keyword) (sql_statements sql))"

definition statement_with :: "string \<Rightarrow> string \<Rightarrow> string \<Rightarrow> bool" where
  "statement_with keyword clause sql =
     list_ex (contains clause) (filter (starts_with keyword) (sql_statements sql))"

text \<open>
  The two texts cut at their semicolons: each piece is the white space before a statement
  and the statement. The statements that run over several lines have a name.
\<close>

definition join_parts :: "(string \<times> string) list \<Rightarrow> string" where
  "join_parts ps = concat (map (\<lambda>(ws, st). ws @ st @ '';'') ps) @ ''\<newline>''"

fun part_ok :: "string \<times> string \<Rightarrow> bool" where
  "part_ok (ws, st) =
     (list_all is_space ws \<and> (case st of [] \<Rightarrow> False | c # cs \<Rightarrow> \<not> is_space c) \<and>
      list_all (\<lambda>c. c \<noteq> CHR '';'') st)"

definition raw_pl_matches_statement :: string where
  "raw_pl_matches_statement = concat
     [''CREATE TABLE raw_pl_matches (\<newline>'',
      ''    id SERIAL PRIMARY KEY,\<newline>'',
      ''    league_division VARCHAR(10) NOT NULL,\<newline>'',
      ''    match_date DATE NOT NULL,\<newline>'',
      ''    kickoff_time TIME,\<newline>'',
      ''    home_team VARCHAR(100) NOT NULL,\<newline>'',
      ''    away_team VARCHAR(100) NOT NULL,\<newline>'',
      ''    ft_home_goals INTEGER,\<newline>'',
      ''    ft_away_goals INTEGER,\<newline>'',
      ''    ft_result VARCHAR(1),\<newline>'',
      ''    ht_home_goals INTEGER,\<newline>'',
      ''    ht_away_goals INTEGER,\<newline>'',
      ''    ht_result VARCHAR(1),\<newline>'',
      ''    referee VARCHAR(100),\<newline>'',
      ''    home_shots INTEGER,\<newline>'',
      ''    away_shots INTEGER,\<newline>'',
      ''    home_shots_on_target INTEGER,\<newline>'',
      ''    away_shots_on_target INTEGER,\<newline>'',
      ''    home_corners INTEGER,\<newline>'',
      ''    away_corners INTEGER,\<newline>'',
      ''    home_fouls INTEGER,\<newline>'',
      ''    away_fouls INTEGER,\<newline>'',
      ''    home_yellow_cards INTEGER,\<newline>'',
      ''    away_yellow_cards INTEGER,\<newline>'',
      ''    home_red_cards INTEGER,\<newline>'',
      ''    away_red_cards INTEGER,\<newline>'',
      ''    bet365_home_odds DECIMAL(5, 2),\<newline>'',
      ''    bet365_draw_odds DECIMAL(5, 2),\<newline>'',
      ''    bet365_away_odds DECIMAL(5, 2),\<newline>'',
      ''    bet365_over_2_5 DECIMAL(5, 2),\<newline>'',
      ''    bet365_under_2_5 DECIMAL(5, 2),\<newline>'',
      ''    asian_handicap DECIMAL(4, 1),\<newline>'',
      ''    bet365_ah_home_odds DECIMAL(5, 2),\<newline>'',
      ''    bet365_ah_away_odds DECIMAL(5, 2),\<newline>'',
      ''    season VARCHAR(10) DEFAULT '2526',\<newline>'',
      ''    data_source VARCHAR(50) DEFAULT 'football-data.co.uk',\<newline>'',
      ''    created_at TIMESTAMP DEFAULT CURRENT_TIMESTAMP,\<newline>'',
      ''    updated_at TIMESTAMP DEFAULT CURRENT_TIMESTAMP\<newline>'',
      '')'']"

definition football_parts :: "(string \<times> string) list" where
  "football_parts =
     [(''\<newline>'', ''DROP TABLE IF EXISTS raw_pl_matches CASCADE''),
      (''\<newline>\<newline>'', raw_pl_matches_statement),
      (''\<newline>\<newline>'', ''CREATE INDEX idx_raw_pl_matches_date ON raw_pl_matches(match_date)''),
      (''\<newline>'', ''CREATE INDEX idx_raw_pl_matches_home ON raw_pl_matches(home_team)''),
      (''\<newline>'', ''CREATE INDEX idx_raw_pl_matches_away ON raw_pl_matches(away_team)''),
      (''\<newline>'', ''CREATE INDEX idx_raw_pl_matches_league ON raw_pl_matches(league_division)'')]"

definition raw_listings_statement :: string where
  "raw_listings_statement = concat
     [''CREATE TABLE IF NOT EXISTS raw.listings (\<newline>'',
      ''    listing_id VARCHAR(50) NOT NULL,\<newline>'',
      ''    url TEXT NOT NULL,\<newline>'',
      ''    title TEXT,\<newline>'',
      ''    property_type VARCHAR(50),\<newline>'',
      ''    typology VARCHAR(10),\<newline>'',
      ''    price_eur NUMERIC(12, 2),\<newline>'',
      ''    price_per_m2 NUMERIC(10, 2),\<newline>'',
      ''    area_m2 NUMERIC(10, 2),\<newline>'',
      ''    full_address TEXT,\<newline>'',
      ''    city VARCHAR(200),\<newline>'',
      ''    province VARCHAR(200),\<newline>'',
      ''    district VARCHAR(100),\<newline>'',
      ''    agency_name VARCHAR(200),\<newline>'',
      ''    scraped_at TIMESTAMP NOT NULL,\<newline>'',
      ''    inserted_at TIMESTAMP DEFAULT CURRENT_TIMESTAMP,\<newline>'',
      ''    CONSTRAINT pk_raw_listings PRIMARY KEY (listing_id, scraped_at)\<newline>'',
      '')'']"

definition listings_latest_statement :: string where
  "listings_latest_statement = concat
     [''CREATE OR REPLACE VIEW raw.listings_latest AS\<newline>'',
      ''SELECT DISTINCT ON (listing_id)\<newline>'',
      ''    listing_id, url, title, property_type, typology,\<newline>'',
      ''    price_eur, price_per_m2, area_m2,\<newline>'',
      ''    full_address, city, province, district, agency_name,\<newline>'',
      ''    scraped_at, inserted_at\<newline>'',
      ''FROM raw.listings\<newline>'',
      ''ORDER BY listing_id, scraped_at DESC'']"

definition price_history_statement :: string where
  "price_history_statement = concat
     [''CREATE TABLE IF NOT EXISTS staging.price_history (\<newline>'',
      ''    id SERIAL PRIMARY KEY,\<newline>'',
      ''    listing_id VARCHAR(50) NOT NULL,\<newline>'',
      ''    url TEXT NOT NULL,\<newline>'',
      ''    price_eur NUMERIC(12, 2),\<newline>'',
      ''    price_per_m2 NUMERIC(10, 2),\<newline>'',
      ''    scraped_at TIMESTAMP NOT NULL,\<newline>'',
      ''    created_at TIMESTAMP DEFAULT CURRENT_TIMESTAMP,\<newline>'',
      ''    CONSTRAINT uq_price_history UNIQUE (listing_id, scraped_at)\<newline>'',
      '')'']"

definition housing_parts :: "(string \<times> string) list" where
  "housing_parts =
     [(''\<newline>'', ''CREATE SCHEMA IF NOT EXISTS raw''),
      (''\<newline>'', ''CREATE SCHEMA IF NOT EXISTS staging''),
      (''\<newline>'', ''CREATE SCHEMA IF NOT EXISTS marts''),
      (''\<newline>\<newline>'', ''GRANT ALL PRIVILEGES ON SCHEMA raw TO dataeng''),
      (''\<newline>'', ''GRANT ALL PRIVILEGES ON SCHEMA staging TO dataeng''),
      (''\<newline>'', ''GRANT ALL PRIVILEGES ON SCHEMA marts TO dataeng''),
      (''\<newline>\<newline>'', raw_listings_statement),
      (''\<newline>\<newline>'', ''CREATE INDEX IF NOT EXISTS idx_raw_listings_scraped_at ON raw.listings(scraped_at DESC)''),
      (''\<newline>'', ''CREATE INDEX IF NOT EXISTS idx_raw_listings_city ON raw.listings(city)''),
      (''\<newline>'', ''CREATE INDEX IF NOT EXISTS idx_raw_listings_province ON raw.listings(province)''),
      (''\<newline>'', ''CREATE INDEX IF NOT EXISTS idx_raw_listings_price ON raw.listings(price_eur) WHERE price_eur IS NOT NULL''),
      (''\<newline>'', ''CREATE INDEX IF NOT EXISTS idx_raw_listings_url ON raw.listings(url)''),
      (''\<newline>\<newline>'', listings_latest_statement),
      (''\<newline>\<newline>'', price_history_statement),
      (''\<newline>\<newline>'', ''CREATE INDEX IF NOT EXISTS idx_price_history_listing ON staging.price_history(listing_id)''),
      (''\<newline>\<newline>'', (''COMMENT ON SCHEMA raw IS 'Raw data as ingested from Imovirtual'' @ [CHR 0x27])),
      (''\<newline>'', (''COMMENT ON SCHEMA staging IS 'Intermediate transformations via dbt'' @ [CHR 0x27])),
      (''\<newline>'', (''COMMENT ON SCHEMA marts IS 'Final analytics-ready tables via dbt'' @ [CHR 0x27])),
      (''\<newline>'', (''COMMENT ON TABLE raw.listings IS 'All listing snapshots - one row per listing per scrape date'' @ [CHR 0x27])),
      (''\<newline>'', (''COMMENT ON VIEW raw.listings_latest IS 'Latest snapshot of each listing'' @ [CHR 0x27]))]"

section \<open>The runs of the script\<close>

text \<open>
  A run makes at most four invocations. Which of them is the first to fail, if any,
  fixes the outcome, the console and the history.
\<close>

lemmas line_defs = creating_line_def created_line_def failed_line_def error_line_def
lemmas run_defs = script_def main_def execute_sql_def print_line_def initial_def

lemma script_fail1:
  assumes "run w (psql_cmd ''football_data_dev'' FOOTBALL_SCHEMA_SQL) = (r1, w1)"
      and "returncode r1 \<noteq> 0"
  shows "script run w = SystemExit 1
     \<lparr>world = w1,
      console = [WRENCH @ '' Creating database schemas...'',
                 ''\<newline>'' @ BAR_CHART @ '' Football Data:'',
                 creating_line ''football_data_dev'',
                 error_line ''football_data_dev'' (stderr r1),
                 failed_line ''football_data_dev''],
      history = [(psql_cmd ''football_data_dev'' FOOTBALL_SCHEMA_SQL, r1)]\<rparr>"
  using assms by (simp add: run_defs line_defs)

lemma script_fail2:
  assumes "run w (psql_cmd ''football_data_dev'' FOOTBALL_SCHEMA_SQL) = (r1, w1)"
      and "returncode r1 = 0"
      and "run w1 (psql_cmd ''football_data_prod'' FOOTBALL_SCHEMA_SQL) = (r2, w2)"
      and "returncode r2 \<noteq> 0"
  shows "script run w = SystemExit 1
     \<lparr>world = w2,
      console = [WRENCH @ '' Creating database schemas...'',
                 ''\<newline>'' @ BAR_CHART @ '' Football Data:'',
                 creating_line ''football_data_dev'',
                 created_line ''football_data_dev'',
                 creating_line ''football_data_prod'',
                 error_line ''football_data_prod'' (stderr r2),
                 failed_line ''football_data_prod''],
      history = [(psql_cmd ''football_data_dev'' FOOTBALL_SCHEMA_SQL, r1),
                 (psql_cmd ''football_data_prod'' FOOTBALL_SCHEMA_SQL, r2)]\<rparr>"
  using assms by (simp add: run_defs line_defs)

lemma script_fail3:
  assumes "run w (psql_cmd ''football_data_dev'' FOOTBALL_SCHEMA_SQL) = (r1, w1)"
      and "returncode r1 = 0"
      and "run w1 (psql_cmd ''football_data_prod'' FOOTBALL_SCHEMA_SQL) = (r2, w2)"
      and "returncode r2 = 0"
      and "run w2 (psql_cmd ''portugal_houses_dev'' HOUSING_SCHEMA_SQL) = (r3, w3)"
      and "returncode r3 \<noteq> 0"
  shows "script run w = SystemExit 1
     \<lparr>world = w3,
      console = [WRENCH @ '' Creating database schemas...'',
                 ''\<newline>'' @ BAR_CHART @ '' Football Data:'',
                 creating_line ''football_data_dev'',
                 created_line ''football_data_dev'',
                 creating_line ''football_data_prod'',
                 created_line ''football_data_prod'',
                 ''\<newline>'' @ HOUSE @ '' Housing Market:'',
                 creating_line ''portugal_houses_dev'',
                 error_line ''portugal_houses_dev'' (stderr r3),
                 failed_line ''portugal_houses_dev''],
      history = [(psql_cmd ''football_data_dev'' FOOTBALL_SCHEMA_SQL, r1),
                 (psql_cmd ''football_data_prod'' FOOTBALL_SCHEMA_SQL, r2),
                 (psql_cmd ''portugal_houses_dev'' HOUSING_SCHEMA_SQL, r3)]\<rparr>"
  using assms by (simp add: run_defs line_defs)

lemma script_fail4:
  assumes "run w (psql_cmd ''football_data_dev'' FOOTBALL_SCHEMA_SQL) = (r1, w1)"
      and "returncode r1 = 0"
      and "run w1 (psql_cmd ''football_data_prod'' FOOTBALL_SCHEMA_SQL) = (r2, w2)"
      and "returncode r2 = 0"
      and "run w2 (psql_cmd ''portugal_houses_dev'' HOUSING_SCHEMA_SQL) = (r3, w3)"
      and "returncode r3 = 0"
      and "run w3 (psql_cmd ''portugal_houses_prod'' HOUSING_SCHEMA_SQL) = (r4, w4)"
      and "returncode r4 \<noteq> 0"
  shows "script run w = SystemExit 1
     \<lparr>world = w4,
      console = [WRENCH @ '' Creating database schemas...'',
                 ''\<newline>'' @ BAR_CHART @ '' Football Data:'',
                 creating_line ''football_data_dev'',
                 created_line ''football_data_dev'',
                 creating_line ''football_data_prod'',
                 created_line ''football_data_prod'',
                 ''\<newline>'' @ HOUSE @ '' Housing Market:'',
                 creating_line ''portugal_houses_dev'',
                 created_line ''portugal_houses_dev'',
                 creating_line ''portugal_houses_prod'',
                 error_line ''portugal_houses_prod'' (stderr r4),
                 failed_line ''portugal_houses_prod''],
      history = [(psql_cmd ''football_data_dev'' FOOTBALL_SCHEMA_SQL, r1),
                 (psql_cmd ''football_data_prod'' FOOTBALL_SCHEMA_SQL, r2),
                 (psql_cmd ''portugal_houses_dev'' HOUSING_SCHEMA_SQL, r3),
                 (psql_cmd ''portugal_houses_prod'' HOUSING_SCHEMA_SQL, r4)]\<rparr>"
  using assms by (simp add: run_defs line_defs)

lemma script_ok:
  assumes "run w (psql_cmd ''football_data_dev'' FOOTBALL_SCHEMA_SQL) = (r1, w1)"
      and "returncode r1 = 0"
      and "run w1 (psql_cmd ''football_data_prod'' FOOTBALL_SCHEMA_SQL) = (r2, w2)"
      and "returncode r2 = 0"
      and "run w2 (psql_cmd ''portugal_houses_dev'' HOUSING_SCHEMA_SQL) = (r3, w3)"
      and "returncode r3 = 0"
      and "run w3 (psql_cmd ''portugal_houses_prod'' HOUSING_SCHEMA_SQL) = (r4, w4)"
      and "returncode r4 = 0"
  shows "script run w = Returned
     \<lparr>world = w4,
      console = [WRENCH @ '' Creating database schemas...'',
                 ''\<newline>'' @ BAR_CHART @ '' Football Data:'',
                 creating_line ''football_data_dev'',
                 created_line ''football_data_dev'',
                 creating_line ''football_data_prod'',
                 created_line ''football_data_prod'',
                 ''\<newline>'' @ HOUSE @ '' Housing Market:'',
                 creating_line ''portugal_houses_dev'',
                 created_line ''portugal_houses_dev'',
                 creating_line ''portugal_houses_prod'',
                 created_line ''portugal_houses_prod'',
                 ''\<newline>'' @ CHECK_MARK @ '' All schemas created successfully!''],
      history = [(psql_cmd ''football_data_dev'' FOOTBALL_SCHEMA_SQL, r1),
                 (psql_cmd ''football_data_prod'' FOOTBALL_SCHEMA_SQL, r2),
                 (psql_cmd ''portugal_houses_dev'' HOUSING_SCHEMA_SQL, r3),
                 (psql_cmd ''portugal_houses_prod'' HOUSING_SCHEMA_SQL, r4)]\<rparr>"
  using assms by (simp add: run_defs line_defs)


lemma script_cases [case_names fail1 fail2 fail3 fail4 ok]:
  obtains
    (fail1) r1 w1 where
      "run w (psql_cmd ''football_data_dev'' FOOTBALL_SCHEMA_SQL) = (r1, w1)"
      "returncode r1 \<noteq> 0"
  | (fail2) r1 w1 r2 w2 where
      "run w (psql_cmd ''football_data_dev'' FOOTBALL_SCHEMA_SQL) = (r1, w1)"
      "returncode r1 = 0"
      "run w1 (psql_cmd ''football_data_prod'' FOOTBALL_SCHEMA_SQL) = (r2, w2)"
      "returncode r2 \<noteq> 0"
  | (fail3) r1 w1 r2 w2 r3 w3 where
      "run w (psql_cmd ''football_data_dev'' FOOTBALL_SCHEMA_SQL) = (r1, w1)"
      "returncode r1 = 0"
      "run w1 (psql_cmd ''football_data_prod'' FOOTBALL_SCHEMA_SQL) = (r2, w2)"
      "returncode r2 = 0"
      "run w2 (psql_cmd ''portugal_houses_dev'' HOUSING_SCHEMA_SQL) = (r3, w3)"
      "returncode r3 \<noteq> 0"
  | (fail4) r1 w1 r2 w2 r3 w3 r4 w4 where
      "run w (psql_cmd ''football_data_dev'' FOOTBALL_SCHEMA_SQL) = (r1, w1)"
      "returncode r1 = 0"
      "run w1 (psql_cmd ''football_data_prod'' FOOTBALL_SCHEMA_SQL) = (r2, w2)"
      "returncode r2 = 0"
      "run w2 (psql_cmd ''portugal_houses_dev'' HOUSING_SCHEMA_SQL) = (r3, w3)"
      "returncode r3 = 0"
      "run w3 (psql_cmd ''portugal_houses_prod'' HOUSING_SCHEMA_SQL) = (r4, w4)"
      "returncode r4 \<noteq> 0"
  | (ok) r1 w1 r2 w2 r3 w3 r4 w4 where
      "run w (psql_cmd ''football_data_dev'' FOOTBALL_SCHEMA_SQL) = (r1, w1)"
      "returncode r1 = 0"
      "run w1 (psql_cmd ''football_data_prod'' FOOTBALL_SCHEMA_SQL) = (r2, w2)"
      "returncode r2 = 0"
      "run w2 (psql_cmd ''portugal_houses_dev'' HOUSING_SCHEMA_SQL) = (r3, w3)"
      "returncode r3 = 0"
      "run w3 (psql_cmd ''portugal_houses_prod'' HOUSING_SCHEMA_SQL) = (r4, w4)"
      "returncode r4 = 0"
proof -
  obtain r1 w1 where 1: "run w (psql_cmd ''football_data_dev'' FOOTBALL_SCHEMA_SQL) = (r1, w1)"
    by (cases "run w (psql_cmd ''football_data_dev'' FOOTBALL_SCHEMA_SQL)")
  obtain r2 w2 where 2: "run w1 (psql_cmd ''football_data_prod'' FOOTBALL_SCHEMA_SQL) = (r2, w2)"
    by (cases "run w1 (psql_cmd ''football_data_prod'' FOOTBALL_SCHEMA_SQL)")
  obtain r3 w3 where 3: "run w2 (psql_cmd ''portugal_houses_dev'' HOUSING_SCHEMA_SQL) = (r3, w3)"
    by (cases "run w2 (psql_cmd ''portugal_houses_dev'' HOUSING_SCHEMA_SQL)")
  obtain r4 w4 where 4: "run w3 (psql_cmd ''portugal_houses_prod'' HOUSING_SCHEMA_SQL) = (r4, w4)"
    by (cases "run w3 (psql_cmd ''portugal_houses_prod'' HOUSING_SCHEMA_SQL)")
  show thesis
  proof (cases "returncode r1 = 0")
    case False
    with 1 show thesis by (rule fail1)
  next
    case a: True
    show thesis
    proof (cases "returncode r2 = 0")
      case False
      with 1 a 2 show thesis by (rule fail2)
    next
      case b: True
      show thesis
      proof (cases "returncode r3 = 0")
        case False
        with 1 a 2 b 3 show thesis by (rule fail3)
      next
        case c: True
        show thesis
        proof (cases "returncode r4 = 0")
          case False
          with 1 a 2 b 3 c 4 show thesis by (rule fail4)
        next
          case True
          with 1 a 2 b 3 c 4 show thesis by (rule ok)
        qed
      qed
    qed
  qed
qed

text \<open>The two runs used as examples below.\<close>

lemma script_always_ok:
  "script always_ok () = Returned
     \<lparr>world = (),
      console = [WRENCH @ '' Creating database schemas...'',
                 ''\<newline>'' @ BAR_CHART @ '' Football Data:'',
                 creating_line ''football_data_dev'',
                 created_line ''football_data_dev'',
                 creating_line ''football_data_prod'',
                 created_line ''football_data_prod'',
                 ''\<newline>'' @ HOUSE @ '' Housing Market:'',
                 creating_line ''portugal_houses_dev'',
                 created_line ''portugal_houses_dev'',
                 creating_line ''portugal_houses_prod'',
                 created_line ''portugal_houses_prod'',
                 ''\<newline>'' @ CHECK_MARK @ '' All schemas created successfully!''],
      history = map (\<lambda>(db, sql). (psql_cmd db sql, fst (always_ok () [])))  targets\<rparr>"
proof -
  let ?r = "\<lparr>returncode = 0, stdout = ''CREATE INDEX'',
             stderr = ''NOTICE:  table does not exist, skipping''\<rparr>"
  have a: "always_ok () c = (?r, ())" for c
    by (simp add: always_ok_def)
  have b: "returncode ?r = 0"
    by simp
  show ?thesis
    by (simp add: script_ok [of always_ok "()", OF a b a b a b a b] targets_def always_ok_def)
qed

lemma script_failing_at_1:
  "script (failing_at 1) 0 = SystemExit 1
     \<lparr>world = 2,
      console = [WRENCH @ '' Creating database schemas...'',
                 ''\<newline>'' @ BAR_CHART @ '' Football Data:'',
                 creating_line ''football_data_dev'',
                 created_line ''football_data_dev'',
                 creating_line ''football_data_prod'',
                 error_line ''football_data_prod'' ''connection refused'',
                 failed_line ''football_data_prod''],
      history = [(psql_cmd ''football_data_dev'' FOOTBALL_SCHEMA_SQL,
                  \<lparr>returncode = 0, stdout = ''CREATE INDEX'', stderr = ''''\<rparr>),
                 (psql_cmd ''football_data_prod'' FOOTBALL_SCHEMA_SQL,
                  \<lparr>returncode = 2, stdout = '''', stderr = ''connection refused''\<rparr>)]\<rparr>"
proof -
  let ?r1 = "\<lparr>returncode = 0, stdout = ''CREATE INDEX'', stderr = ''''\<rparr>"
  let ?r2 = "\<lparr>returncode = 2, stdout = '''', stderr = ''connection refused''\<rparr>"
  have a: "failing_at 1 0 c = (?r1, Suc 0)" for c
    by (simp add: failing_at_def)
  have b: "returncode ?r1 = 0"
    by simp
  have c: "failing_at 1 (Suc 0) c = (?r2, 2)" for c
    by (simp add: failing_at_def)
  have d: "returncode ?r2 \<noteq> 0"
    by simp
  show ?thesis
    using script_fail2 [of "failing_at 1" 0, OF a b c d] by simp
qed

text \<open>
  The two loops over any list of environment tags: the commands a loop adds to the
  history are those of a prefix of the tags, in order.
\<close>

lemma football_loop_commands:
  "\<exists>n. map fst (history (final (football_loop run envs s))) =
     map fst (history s) @
     map (\<lambda>env. psql_cmd (''football_data_'' @ env) FOOTBALL_SCHEMA_SQL) (take n envs)"
proof (induction envs arbitrary: s)
  case Nil
  show ?case by simp
next
  case (Cons env envs)
  let ?c = "psql_cmd (''football_data_'' @ env) FOOTBALL_SCHEMA_SQL"
  obtain r w' where r: "run (world s) ?c = (r, w')"
    by (cases "run (world s) ?c")
  show ?case
  proof (cases "returncode r = 0")
    case True
    let ?s' = "print_line (''  '' @ CHECK_MARK @ '' '' @ (''football_data_'' @ env) @ '' schema created'')
                 (print_line (''  Creating schema in '' @ (''football_data_'' @ env) @ ''...'') s
                    \<lparr>world := w', history := history s @ [(?c, r)]\<rparr>)"
    from Cons.IH [of ?s'] obtain n where
      "map fst (history (final (football_loop run envs ?s'))) =
         map fst (history ?s') @
         map (\<lambda>env. psql_cmd (''football_data_'' @ env) FOOTBALL_SCHEMA_SQL) (take n envs)" ..
    with r True show ?thesis
      by (intro exI [of _ "Suc n"]) (simp add: execute_sql_def print_line_def)
  next
    case False
    with r show ?thesis
      by (intro exI [of _ "Suc 0"]) (simp add: execute_sql_def print_line_def)
  qed
qed

lemma housing_loop_commands:
  "\<exists>n. map fst (history (final (housing_loop run envs s))) =
     map fst (history s) @
     map (\<lambda>env. psql_cmd (''portugal_houses_'' @ env) HOUSING_SCHEMA_SQL) (take n envs)"
proof (induction envs arbitrary: s)
  case Nil
  show ?case by simp
next
  case (Cons env envs)
  let ?c = "psql_cmd (''portugal_houses_'' @ env) HOUSING_SCHEMA_SQL"
  obtain r w' where r: "run (world s) ?c = (r, w')"
    by (cases "run (world s) ?c")
  show ?case
  proof (cases "returncode r = 0")
    case True
    let ?s' = "print_line (''  '' @ CHECK_MARK @ '' '' @ (''portugal_houses_'' @ env) @ '' schema created'')
                 (print_line (''  Creating schema in '' @ (''portugal_houses_'' @ env) @ ''...'') s
                    \<lparr>world := w', history := history s @ [(?c, r)]\<rparr>)"
    from Cons.IH [of ?s'] obtain n where
      "map fst (history (final (housing_loop run envs ?s'))) =
         map fst (history ?s') @
         map (\<lambda>env. psql_cmd (''portugal_houses_'' @ env) HOUSING_SCHEMA_SQL) (take n envs)" ..
    with r True show ?thesis
      by (intro exI [of _ "Suc n"]) (simp add: execute_sql_def print_line_def)
  next
    case False
    with r show ?thesis
      by (intro exI [of _ "Suc 0"]) (simp add: execute_sql_def print_line_def)
  qed
qed

lemma script_commands:
  "\<exists>n. map fst (history (final (script run w))) =
     map (\<lambda>(db, sql). psql_cmd db sql) (take n targets)"
proof (cases run w rule: script_cases)
  case fail1
  show ?thesis
    by (intro exI [of _ "Suc 0"]) (simp add: script_fail1 [of run w, OF fail1] targets_def)
next
  case fail2
  show ?thesis
    by (intro exI [of _ "Suc (Suc 0)"]) (simp add: script_fail2 [of run w, OF fail2] targets_def)
next
  case fail3
  show ?thesis
    by (intro exI [of _ "Suc (Suc (Suc 0))"])
      (simp add: script_fail3 [of run w, OF fail3] targets_def)
next
  case fail4
  show ?thesis
    by (intro exI [of _ "Suc (Suc (Suc (Suc 0)))"])
      (simp add: script_fail4 [of run w, OF fail4] targets_def)
next
  case ok
  show ?thesis
    by (intro exI [of _ "Suc (Suc (Suc (Suc 0)))"])
      (simp add: script_ok [of run w, OF ok] targets_def)
qed

lemma target_of_psql_cmd: "target_of (psql_cmd db sql) = db"
  by (simp add: target_of_def psql_cmd_def)

lemma sql_of_psql_cmd: "sql_of (psql_cmd db sql) = sql"
  by (simp add: sql_of_def psql_cmd_def)

section \<open>The statements of the schema texts\<close>

lemma split_on_no_delimiter: "d \<notin> set xs \<Longrightarrow> split_on d xs = [xs]"
  by (induction xs) auto

lemma split_on_append: "d \<notin> set xs \<Longrightarrow> split_on d (xs @ d # ys) = xs # split_on d ys"
  by (induction xs) auto

lemma dropWhile_space_part: "part_ok (ws, st) \<Longrightarrow> dropWhile is_space (ws @ st) = st"
  by (cases st) (auto simp: list_all_iff dropWhile_append)

lemma sql_statements_parts_aux:
  "list_all part_ok ps \<Longrightarrow> list_all is_space r \<Longrightarrow>
   sql_statements (concat (map (\<lambda>(ws, st). ws @ st @ '';'') ps) @ r) = map snd ps"
proof (induction ps)
  case Nil
  have "CHR '';'' \<notin> set r"
    using Nil.prems(2) by (auto simp: list_all_iff is_space_def)
  moreover have "dropWhile is_space r = []"
    using Nil.prems(2) by (simp add: list_all_iff)
  ultimately show ?case
    by (simp add: sql_statements_def split_on_no_delimiter)
next
  case (Cons p ps)
  obtain ws st where p: "p = (ws, st)"
    by (cases p)
  from Cons.prems p have ok: "part_ok (ws, st)" and rest: "list_all part_ok ps"
    by simp_all
  from ok have no: "CHR '';'' \<notin> set (ws @ st)"
    by (auto simp: list_all_iff is_space_def)
  from ok have ne: "st \<noteq> []"
    by (cases st) simp_all
  have "sql_statements ((ws @ st) @ CHR '';'' # (concat (map (\<lambda>(ws, st). ws @ st @ '';'') ps) @ r)) =
      st # sql_statements (concat (map (\<lambda>(ws, st). ws @ st @ '';'') ps) @ r)"
    unfolding sql_statements_def split_on_append [OF no]
    using ne by (simp add: dropWhile_space_part [OF ok])
  with Cons.IH [OF rest Cons.prems(2)] p show ?case
    by simp
qed

lemma sql_statements_parts:
  "list_all part_ok ps \<Longrightarrow> sql_statements (join_parts ps) = map snd ps"
  unfolding join_parts_def by (rule sql_statements_parts_aux) (simp_all add: is_space_def)

lemmas statement_defs =
  raw_pl_matches_statement_def raw_listings_statement_def
  listings_latest_statement_def price_history_statement_def

lemma football_parts_ok: "list_all part_ok football_parts"
  by (simp add: football_parts_def statement_defs is_space_def)

lemma football_text: "FOOTBALL_SCHEMA_SQL = join_parts football_parts"
  by (simp add: FOOTBALL_SCHEMA_SQL_def unlines_def join_parts_def football_parts_def
        statement_defs)

lemma housing_parts_ok: "list_all part_ok housing_parts"
  by (simp add: housing_parts_def statement_defs is_space_def)

lemma housing_text: "HOUSING_SCHEMA_SQL = join_parts housing_parts"
  by (simp add: HOUSING_SCHEMA_SQL_def unlines_def join_parts_def housing_parts_def
        statement_defs)

lemma football_statements: "sql_statements FOOTBALL_SCHEMA_SQL = map snd football_parts"
  by (simp only: football_text sql_statements_parts [OF football_parts_ok])

lemma housing_statements: "sql_statements HOUSING_SCHEMA_SQL = map snd housing_parts"
  by (simp only: housing_text sql_statements_parts [OF housing_parts_ok])

text \<open>A keyword of one line is found at the start of a statement's first line.\<close>

lemma starts_with_first_line:
  "CHR ''\<newline>'' \<notin> set p \<Longrightarrow> starts_with p st = starts_with p (first_line st)"
proof (induction p st rule: starts_with.induct)
  case (1 s)
  show ?case by simp
next
  case (2 p ps)
  show ?case by (simp add: first_line_def)
next
  case (3 p ps c cs)
  then show ?case by (auto simp: first_line_def)
qed

lemma raw_pl_matches_first_line:
  "first_line raw_pl_matches_statement = ''CREATE TABLE raw_pl_matches (''"
  by (simp add: raw_pl_matches_statement_def first_line_def)

lemma raw_listings_first_line:
  "first_line raw_listings_statement = ''CREATE TABLE IF NOT EXISTS raw.listings (''"
  by (simp add: raw_listings_statement_def first_line_def)

lemma listings_latest_first_line:
  "first_line listings_latest_statement = ''CREATE OR REPLACE VIEW raw.listings_latest AS''"
  by (simp add: listings_latest_statement_def first_line_def)

lemma price_history_first_line:
  "first_line price_history_statement = ''CREATE TABLE IF NOT EXISTS staging.price_history (''"
  by (simp add: price_history_statement_def first_line_def)

lemmas first_lines =
  raw_pl_matches_first_line raw_listings_first_line
  listings_latest_first_line price_history_first_line

lemma starts_with_statement:
  assumes "CHR ''\<newline>'' \<notin> set p"
  shows "starts_with p raw_pl_matches_statement =
           starts_with p ''CREATE TABLE raw_pl_matches (''"
    and "starts_with p raw_listings_statement =
           starts_with p ''CREATE TABLE IF NOT EXISTS raw.listings (''"
    and "starts_with p listings_latest_statement =
           starts_with p ''CREATE OR REPLACE VIEW raw.listings_latest AS''"
    and "starts_with p price_history_statement =
           starts_with p ''CREATE TABLE IF NOT EXISTS staging.price_history (''"
  using starts_with_first_line [OF assms, of raw_pl_matches_statement]
    starts_with_first_line [OF assms, of raw_listings_statement]
    starts_with_first_line [OF assms, of listings_latest_statement]
    starts_with_first_line [OF assms, of price_history_statement]
  by (simp_all only: first_lines)

text \<open>A clause that stands in one line of a statement stands in the statement.\<close>

lemma starts_with_append: "starts_with p (p @ s)"
  by (induction p) simp_all

lemma contains_starts_with: "starts_with p s \<Longrightarrow> contains p s"
  by (cases s) (auto elim: starts_with.elims)

lemma contains_append_right: "contains p ys \<Longrightarrow> contains p (xs @ ys)"
  by (induction xs) simp_all

lemma contains_append_left: "contains p xs \<Longrightarrow> contains p (xs @ ys)"
proof (induction xs)
  case Nil
  then have "p = []" by simp
  then show ?case by (cases ys) simp_all
next
  case (Cons x xs)
  show ?case
  proof (cases "starts_with p (x # xs)")
    case True
    then have "starts_with p ((x # xs) @ ys)"
      by (induction p "x # xs" arbitrary: x xs rule: starts_with.induct)
        (auto split: if_splits elim: starts_with.elims)
    then show ?thesis by simp
  next
    case False
    with Cons show ?thesis by simp
  qed
qed

lemma contains_middle: "contains p (a @ p @ b)"
  by (intro contains_append_right contains_starts_with starts_with_append)

lemma contains_concat: "c \<in> set cs \<Longrightarrow> contains p c \<Longrightarrow> contains p (concat cs)"
  by (induction cs) (auto intro: contains_append_left contains_append_right)

text \<open>The clauses of the housing statements that the claims name.\<close>

lemma raw_listings_primary_key:
  "contains ''PRIMARY KEY (listing_id, scraped_at)'' raw_listings_statement"
  unfolding raw_listings_statement_def
proof (rule contains_concat)
  show "contains ''PRIMARY KEY (listing_id, scraped_at)''
      (''    CONSTRAINT pk_raw_listings '' @ ''PRIMARY KEY (listing_id, scraped_at)'' @ ''\<newline>'')"
    by (rule contains_middle)
qed simp

lemma listings_latest_distinct_on:
  "contains ''SELECT DISTINCT ON (listing_id)'' listings_latest_statement"
  unfolding listings_latest_statement_def
proof (rule contains_concat)
  show "contains ''SELECT DISTINCT ON (listing_id)''
      ([] @ ''SELECT DISTINCT ON (listing_id)'' @ ''\<newline>'')"
    by (rule contains_middle)
qed simp

lemma listings_latest_order_by:
  "contains ''ORDER BY listing_id, scraped_at DESC'' listings_latest_statement"
  unfolding listings_latest_statement_def
proof (rule contains_concat)
  show "contains ''ORDER BY listing_id, scraped_at DESC''
      ([] @ ''ORDER BY listing_id, scraped_at DESC'' @ [])"
    by (rule contains_middle)
qed simp

lemma price_history_unique:
  "contains ''UNIQUE (listing_id, scraped_at)'' price_history_statement"
  unfolding price_history_statement_def
proof (rule contains_concat)
  show "contains ''UNIQUE (listing_id, scraped_at)''
      (''    CONSTRAINT uq_price_history '' @ ''UNIQUE (listing_id, scraped_at)'' @ ''\<newline>'')"
    by (rule contains_middle)
qed simp

lemmas clauses =
  raw_listings_primary_key listings_latest_distinct_on listings_latest_order_by
  price_history_unique

lemmas football_eval =
  football_statements football_parts_def count_statements_def first_lines
  starts_with_statement

lemmas housing_eval =
  housing_statements housing_parts_def count_statements_def statement_with_def first_lines
  starts_with_statement clauses

section \<open>The claims\<close>

subsection \<open>C1: abort on first failure\<close>

text \<open>
  C1. In every world: if invocation number \<open>k\<close> of a run (from 0) exits with a
  nonzero status, then the commands run are exactly those of the first \<open>k + 1\<close>
  targets in their order, so that no later target is attempted, also none of the other
  dataset; every earlier invocation has completed, with status 0; the process ends with
  status 1; and the last line printed is the failure line of target \<open>k\<close>.
\<close>

theorem abort_on_first_failure:
  assumes "k < length (history (final (script run w)))"
      and "returncode (snd (history (final (script run w)) ! k)) \<noteq> 0"
  shows "map fst (history (final (script run w))) =
           map (\<lambda>(db, sql). psql_cmd db sql) (take (Suc k) targets) \<and>
         (\<forall>i<k. returncode (snd (history (final (script run w)) ! i)) = 0) \<and>
         exit_status (script run w) = 1 \<and>
         last (console (final (script run w))) = failed_line (fst (targets ! k))"
proof (cases run w rule: script_cases)
  case fail1
  note s = script_fail1 [of run w, OF fail1]
  from assms have "k = 0" by (simp add: s)
  then show ?thesis by (simp add: s targets_def)
next
  case fail2
  note s = script_fail2 [of run w, OF fail2]
  from assms fail2 have "k = Suc 0" by (auto simp: s less_Suc_eq)
  then show ?thesis using fail2 by (simp add: s targets_def)
next
  case fail3
  note s = script_fail3 [of run w, OF fail3]
  from assms fail3 have "k = Suc (Suc 0)" by (auto simp: s less_Suc_eq)
  then show ?thesis using fail3 by (simp add: s targets_def All_less_Suc)
next
  case fail4
  note s = script_fail4 [of run w, OF fail4]
  from assms fail4 have "k = Suc (Suc (Suc 0))" by (auto simp: s less_Suc_eq)
  then show ?thesis using fail4 by (simp add: s targets_def All_less_Suc)
next
  case ok
  note s = script_ok [of run w, OF ok]
  from assms ok have False by (auto simp: s less_Suc_eq)
  then show ?thesis ..
qed

text \<open>The run in which the second target, \<^verbatim>\<open>football_data_prod\<close>, is unreachable.\<close>

theorem abort_on_first_failure_witness:
  "Suc 0 < length (history (final (script (failing_at 1) 0))) \<and>
   returncode (snd (history (final (script (failing_at 1) 0)) ! Suc 0)) \<noteq> 0 \<and>
   map fst (history (final (script (failing_at 1) 0))) =
     [psql_cmd ''football_data_dev'' FOOTBALL_SCHEMA_SQL,
      psql_cmd ''football_data_prod'' FOOTBALL_SCHEMA_SQL] \<and>
   exit_status (script (failing_at 1) 0) = 1 \<and>
   last (console (final (script (failing_at 1) 0))) = failed_line ''football_data_prod''"
proof -
  note s = script_failing_at_1
  have h1: "Suc 0 < length (history (final (script (failing_at 1) 0)))"
    using s by simp
  have h2: "returncode (snd (history (final (script (failing_at 1) 0)) ! Suc 0)) \<noteq> 0"
    using s by simp
  from abort_on_first_failure [OF h1 h2] h1 h2 show ?thesis
    by (simp add: targets_def)
qed

subsection \<open>C2: the exit status\<close>

text \<open>
  C2. In every world: a run in which every invocation exits with status 0 reaches all
  four targets and ends with process exit status 0. A run in which some invocation
  exits with a nonzero status ends with process exit status 1, and the last two lines
  it prints are the diagnostic of \<^verbatim>\<open>execute_sql\<close> and the failure line, both naming
  the database of that invocation.
\<close>

theorem exit_status_contract:
  "((\<forall>e \<in> set (history (final (script run w))). returncode (snd e) = 0) \<longrightarrow>
      exit_status (script run w) = 0 \<and>
      map (target_of \<circ> fst) (history (final (script run w))) = map fst targets) \<and>
   (\<forall>cmd r. (cmd, r) \<in> set (history (final (script run w))) \<and> returncode r \<noteq> 0 \<longrightarrow>
      exit_status (script run w) = 1 \<and>
      suffix [error_line (target_of cmd) (stderr r), failed_line (target_of cmd)]
        (console (final (script run w))))"
proof (cases run w rule: script_cases)
  case fail1
  then show ?thesis
    by (auto simp: script_fail1 [of run w, OF fail1] target_of_def psql_cmd_def suffix_to_prefix)
next
  case fail2
  then show ?thesis
    by (auto simp: script_fail2 [of run w, OF fail2] target_of_def psql_cmd_def suffix_to_prefix)
next
  case fail3
  then show ?thesis
    by (auto simp: script_fail3 [of run w, OF fail3] target_of_def psql_cmd_def suffix_to_prefix)
next
  case fail4
  then show ?thesis
    by (auto simp: script_fail4 [of run w, OF fail4] target_of_def psql_cmd_def suffix_to_prefix)
next
  case ok
  then show ?thesis
    by (auto simp: script_ok [of run w, OF ok] target_of_def psql_cmd_def targets_def)
qed

text \<open>The run where all is well, and the run where \<^verbatim>\<open>football_data_prod\<close> is unreachable.\<close>

theorem exit_status_contract_witness:
  "exit_status (script always_ok ()) = 0 \<and>
   exit_status (script (failing_at 1) 0) = 1 \<and>
   suffix [error_line ''football_data_prod'' ''connection refused'',
           failed_line ''football_data_prod'']
     (console (final (script (failing_at 1) 0)))"
proof -
  have a: "\<forall>e \<in> set (history (final (script always_ok ()))). returncode (snd e) = 0"
    by (simp add: script_always_ok targets_def always_ok_def)
  let ?c = "psql_cmd ''football_data_prod'' FOOTBALL_SCHEMA_SQL"
  let ?r = "\<lparr>returncode = 2, stdout = '''', stderr = ''connection refused''\<rparr>"
  have b: "(?c, ?r) \<in> set (history (final (script (failing_at 1) 0))) \<and> returncode ?r \<noteq> 0"
    using script_failing_at_1 by simp
  from exit_status_contract [of always_ok "()"] a
  have 1: "exit_status (script always_ok ()) = 0"
    by blast
  from exit_status_contract [of "failing_at 1" 0] b
  have 2: "exit_status (script (failing_at 1) 0) = 1 \<and>
      suffix [error_line (target_of ?c) (stderr ?r), failed_line (target_of ?c)]
        (console (final (script (failing_at 1) 0)))"
    by blast
  from 1 2 show ?thesis
    by (simp add: target_of_def psql_cmd_def)
qed

subsection \<open>C3: the names of the targets\<close>

text \<open>
  C3 gives one rule with one exception: the target is the dataset name, an underscore and
  the environment tag, and only the football dataset has another prefix. The third
  invocation of the run in which every invocation succeeds is the housing dataset's
  development target. Its database is \<^verbatim>\<open>portugal_houses_dev\<close>: not what the rule
  gives for the name of the housing dataset in the specification, \<^verbatim>\<open>housing\<close>, and
  not what it gives for the name \<^verbatim>\<open>main\<close> prints for it, \<^verbatim>\<open>Housing Market\<close>.
\<close>

theorem target_naming_counterexample:
  "target_of (fst (history (final (script always_ok ())) ! 2)) = ''portugal_houses_dev'' \<and>
   target_of (fst (history (final (script always_ok ())) ! 2)) \<noteq> spec_target ''housing'' ''dev'' \<and>
   target_of (fst (history (final (script always_ok ())) ! 2)) \<noteq> spec_target ''Housing Market'' ''dev''"
  by (simp add: script_always_ok targets_def target_of_psql_cmd spec_target_def)

text \<open>
  C3, amended. Each dataset has a prefix of its own, written out in its loop:
  \<^verbatim>\<open>football_data\<close> for the football dataset and \<^verbatim>\<open>portugal_houses\<close> for the
  housing dataset. For every list of environment tags and in every world, the databases
  a loop reaches are the prefix of its dataset, an underscore and the tag, for the tags
  in order up to the first failure; and the databases a run of the script reaches are
  the first ones of \<^verbatim>\<open>football_data_dev\<close>, \<^verbatim>\<open>football_data_prod\<close>,
  \<^verbatim>\<open>portugal_houses_dev\<close>, \<^verbatim>\<open>portugal_houses_prod\<close>.
\<close>

theorem target_naming:
  "(\<exists>n. map (target_of \<circ> fst) (history (final (football_loop run envs s))) =
         map (target_of \<circ> fst) (history s) @
         map (\<lambda>env. ''football_data'' @ ''_'' @ env) (take n envs)) \<and>
   (\<exists>n. map (target_of \<circ> fst) (history (final (housing_loop run envs s))) =
         map (target_of \<circ> fst) (history s) @
         map (\<lambda>env. ''portugal_houses'' @ ''_'' @ env) (take n envs)) \<and>
   (\<exists>n. map (target_of \<circ> fst) (history (final (script run w))) =
         take n [''football_data_dev'', ''football_data_prod'',
                 ''portugal_houses_dev'', ''portugal_houses_prod''])"
proof (intro conjI)
  obtain n where
    "map fst (history (final (football_loop run envs s))) =
       map fst (history s) @
       map (\<lambda>env. psql_cmd (''football_data_'' @ env) FOOTBALL_SCHEMA_SQL) (take n envs)"
    using football_loop_commands [of run envs s] by (elim exE)
  then have "map target_of (map fst (history (final (football_loop run envs s)))) =
      map target_of (map fst (history s) @
        map (\<lambda>env. psql_cmd (''football_data_'' @ env) FOOTBALL_SCHEMA_SQL) (take n envs))"
    by (rule arg_cong)
  then show "\<exists>n. map (target_of \<circ> fst) (history (final (football_loop run envs s))) =
         map (target_of \<circ> fst) (history s) @
         map (\<lambda>env. ''football_data'' @ ''_'' @ env) (take n envs)"
    by (intro exI [of _ n]) (simp add: target_of_psql_cmd comp_def)
next
  obtain n where
    "map fst (history (final (housing_loop run envs s))) =
       map fst (history s) @
       map (\<lambda>env. psql_cmd (''portugal_houses_'' @ env) HOUSING_SCHEMA_SQL) (take n envs)"
    using housing_loop_commands [of run envs s] by (elim exE)
  then have "map target_of (map fst (history (final (housing_loop run envs s)))) =
      map target_of (map fst (history s) @
        map (\<lambda>env. psql_cmd (''portugal_houses_'' @ env) HOUSING_SCHEMA_SQL) (take n envs))"
    by (rule arg_cong)
  then show "\<exists>n. map (target_of \<circ> fst) (history (final (housing_loop run envs s))) =
         map (target_of \<circ> fst) (history s) @
         map (\<lambda>env. ''portugal_houses'' @ ''_'' @ env) (take n envs)"
    by (intro exI [of _ n]) (simp add: target_of_psql_cmd comp_def)
next
  obtain n where
    "map fst (history (final (script run w))) =
       map (\<lambda>(db, sql). psql_cmd db sql) (take n targets)"
    using script_commands [of run w] by (elim exE)
  then have "map target_of (map fst (history (final (script run w)))) =
      map target_of (map (\<lambda>(db, sql). psql_cmd db sql) (take n targets))"
    by (rule arg_cong)
  then show "\<exists>n. map (target_of \<circ> fst) (history (final (script run w))) =
         take n [''football_data_dev'', ''football_data_prod'',
                 ''portugal_houses_dev'', ''portugal_houses_prod'']"
    by (intro exI [of _ n])
      (simp add: target_of_psql_cmd comp_def targets_def take_map [symmetric] case_prod_unfold)
qed

subsection \<open>C4: the number of targets\<close>

text \<open>
  C4 speaks of eight target databases. The run in which every invocation succeeds makes
  four invocations, not eight.
\<close>

theorem eight_targets_counterexample:
  "exit_status (script always_ok ()) = 0 \<and>
   length (history (final (script always_ok ()))) \<noteq> 8"
  by (simp add: script_always_ok targets_def)

text \<open>
  C4, amended. A run never makes more than four invocations, and a run in which no
  invocation fails makes exactly four: one for each of \<^verbatim>\<open>football_data_dev\<close>,
  \<^verbatim>\<open>football_data_prod\<close>, \<^verbatim>\<open>portugal_houses_dev\<close> and
  \<^verbatim>\<open>portugal_houses_prod\<close>, in this order.
\<close>

theorem four_targets:
  "length (history (final (script run w))) \<le> 4 \<and>
   ((\<forall>e \<in> set (history (final (script run w))). returncode (snd e) = 0) \<longrightarrow>
      length (history (final (script run w))) = 4 \<and>
      map (target_of \<circ> fst) (history (final (script run w))) =
        [''football_data_dev'', ''football_data_prod'',
         ''portugal_houses_dev'', ''portugal_houses_prod''])"
proof (cases run w rule: script_cases)
  case fail1
  then show ?thesis
    by (simp add: script_fail1 [of run w, OF fail1])
next
  case fail2
  then show ?thesis
    by (simp add: script_fail2 [of run w, OF fail2])
next
  case fail3
  then show ?thesis
    by (simp add: script_fail3 [of run w, OF fail3])
next
  case fail4
  then show ?thesis
    by (simp add: script_fail4 [of run w, OF fail4])
next
  case ok
  then show ?thesis
    by (simp add: script_ok [of run w, OF ok] target_of_def psql_cmd_def)
qed

theorem four_targets_witness:
  "length (history (final (script always_ok ()))) = 4 \<and>
   map (target_of \<circ> fst) (history (final (script always_ok ()))) =
     [''football_data_dev'', ''football_data_prod'',
      ''portugal_houses_dev'', ''portugal_houses_prod'']"
proof -
  have a: "\<forall>e \<in> set (history (final (script always_ok ()))). returncode (snd e) = 0"
    by (simp add: script_always_ok targets_def always_ok_def)
  from four_targets [of always_ok "()"] a show ?thesis
    by blast
qed

subsection \<open>C5: the contract of \<^verbatim>\<open>execute_sql\<close>\<close>

text \<open>
  C5. For every database identifier and statement text, in every world:
  \<^verbatim>\<open>execute_sql\<close> runs the \<^verbatim>\<open>psql\<close> command line for them once and returns
  success if and only if that process exits with status 0; when the status is not 0 it
  returns failure and prints one diagnostic line that carries the captured standard
  error of the process.
\<close>

theorem execute_sql_contract:
  "run (world s) (psql_cmd database sql) = (result, w') \<Longrightarrow>
   (fst (execute_sql run database sql s) \<longleftrightarrow> returncode result = 0) \<and>
   history (snd (execute_sql run database sql s)) =
     history s @ [(psql_cmd database sql, result)] \<and>
   (returncode result \<noteq> 0 \<longrightarrow>
      console (snd (execute_sql run database sql s)) =
        console s @ [CROSS_MARK @ '' Error in '' @ database @ '': '' @ stderr result])"
  by (simp add: execute_sql_def print_line_def Let_def)

theorem execute_sql_contract_witness:
  "failing_at 0 (world (initial 0)) (psql_cmd ''football_data_dev'' FOOTBALL_SCHEMA_SQL) =
     (\<lparr>returncode = 2, stdout = '''', stderr = ''connection refused''\<rparr>, 1) \<and>
   \<not> fst (execute_sql (failing_at 0) ''football_data_dev'' FOOTBALL_SCHEMA_SQL (initial 0)) \<and>
   console (snd (execute_sql (failing_at 0) ''football_data_dev'' FOOTBALL_SCHEMA_SQL (initial 0))) =
     [CROSS_MARK @ '' Error in football_data_dev: connection refused'']"
proof -
  have h: "failing_at 0 (world (initial 0)) (psql_cmd ''football_data_dev'' FOOTBALL_SCHEMA_SQL) =
      (\<lparr>returncode = 2, stdout = '''', stderr = ''connection refused''\<rparr>, 1)"
    by (simp add: failing_at_def initial_def)
  from execute_sql_contract [of "failing_at 0" "initial 0", OF h] h show ?thesis
    by (simp add: initial_def)
qed

subsection \<open>C6: the run in which every target succeeds\<close>

text \<open>
  C6. In every world: when every invocation of a run exits with status 0, the run
  returns from \<^verbatim>\<open>main\<close>, the process exit status is 0, and the console holds
  exactly twelve lines: among them the four confirmation lines, for
  \<^verbatim>\<open>football_data_dev\<close>, \<^verbatim>\<open>football_data_prod\<close>, \<^verbatim>\<open>portugal_houses_dev\<close>
  and \<^verbatim>\<open>portugal_houses_prod\<close> in this order, and after them, as the last line, the
  line of overall success.
\<close>

theorem full_success_scenario:
  assumes "\<forall>e \<in> set (history (final (script run w))). returncode (snd e) = 0"
  shows "exit_status (script run w) = 0 \<and>
         script run w = Returned (final (script run w)) \<and>
         console (final (script run w)) =
           [WRENCH @ '' Creating database schemas...'',
            ''\<newline>'' @ BAR_CHART @ '' Football Data:'',
            creating_line ''football_data_dev'',
            created_line ''football_data_dev'',
            creating_line ''football_data_prod'',
            created_line ''football_data_prod'',
            ''\<newline>'' @ HOUSE @ '' Housing Market:'',
            creating_line ''portugal_houses_dev'',
            created_line ''portugal_houses_dev'',
            creating_line ''portugal_houses_prod'',
            created_line ''portugal_houses_prod'',
            ''\<newline>'' @ CHECK_MARK @ '' All schemas created successfully!''] \<and>
         filter (suffix '' schema created'') (console (final (script run w))) =
           [created_line ''football_data_dev'', created_line ''football_data_prod'',
            created_line ''portugal_houses_dev'', created_line ''portugal_houses_prod''] \<and>
         last (console (final (script run w))) =
           ''\<newline>'' @ CHECK_MARK @ '' All schemas created successfully!''"
proof (cases run w rule: script_cases)
  case fail1
  with assms show ?thesis
    by (simp add: script_fail1 [of run w, OF fail1])
next
  case fail2
  with assms show ?thesis
    by (simp add: script_fail2 [of run w, OF fail2])
next
  case fail3
  with assms show ?thesis
    by (simp add: script_fail3 [of run w, OF fail3])
next
  case fail4
  with assms show ?thesis
    by (simp add: script_fail4 [of run w, OF fail4])
next
  case ok
  show ?thesis
    by (simp add: script_ok [of run w, OF ok] line_defs suffix_to_prefix
          CHECK_MARK_def WRENCH_def HOUSE_def BAR_CHART_def)
qed

theorem full_success_scenario_witness:
  "exit_status (script always_ok ()) = 0 \<and>
   filter (suffix '' schema created'') (console (final (script always_ok ()))) =
     [created_line ''football_data_dev'', created_line ''football_data_prod'',
      created_line ''portugal_houses_dev'', created_line ''portugal_houses_prod''] \<and>
   last (console (final (script always_ok ()))) =
     ''\<newline>'' @ CHECK_MARK @ '' All schemas created successfully!''"
proof -
  have a: "\<forall>e \<in> set (history (final (script always_ok ()))). returncode (snd e) = 0"
    by (simp add: script_always_ok targets_def always_ok_def)
  from full_success_scenario [of always_ok "()", OF a] show ?thesis
    by blast
qed

subsection \<open>C7: the housing schema\<close>

text \<open>
  C7 counts five indexes in the housing text. The text has six statements that create
  an index: five on \<^verbatim>\<open>raw.listings\<close>, and after the price-history table a sixth,
  on \<^verbatim>\<open>staging.price_history\<close>.
\<close>

theorem housing_five_indexes_counterexample:
  "count_statements ''CREATE INDEX'' HOUSING_SCHEMA_SQL = 6 \<and>
   count_statements ''CREATE INDEX'' HOUSING_SCHEMA_SQL \<noteq> 5"
  by (simp add: housing_eval)

text \<open>
  C7, amended. The housing text is twenty statements, in this order: three create the
  schemas \<^verbatim>\<open>raw\<close>, \<^verbatim>\<open>staging\<close> and \<^verbatim>\<open>marts\<close>; three grant all privileges
  on them; one creates the table \<^verbatim>\<open>raw.listings\<close>, with the primary key
  \<^verbatim>\<open>(listing_id, scraped_at)\<close>; five create an index on that table; one creates
  the view \<^verbatim>\<open>raw.listings_latest\<close>, which selects distinct on \<^verbatim>\<open>listing_id\<close>
  ordered by \<^verbatim>\<open>listing_id, scraped_at DESC\<close>; one creates the table
  \<^verbatim>\<open>staging.price_history\<close>, with a uniqueness constraint on
  \<^verbatim>\<open>(listing_id, scraped_at)\<close>; one creates an index on that table, the sixth index
  of the text; and five set comments, on the three schemas, on the table
  \<^verbatim>\<open>raw.listings\<close> and on the view.
\<close>

theorem housing_schema_objects:
  "map first_line (sql_statements HOUSING_SCHEMA_SQL) =
     [''CREATE SCHEMA IF NOT EXISTS raw'',
      ''CREATE SCHEMA IF NOT EXISTS staging'',
      ''CREATE SCHEMA IF NOT EXISTS marts'',
      ''GRANT ALL PRIVILEGES ON SCHEMA raw TO dataeng'',
      ''GRANT ALL PRIVILEGES ON SCHEMA staging TO dataeng'',
      ''GRANT ALL PRIVILEGES ON SCHEMA marts TO dataeng'',
      ''CREATE TABLE IF NOT EXISTS raw.listings ('',
      ''CREATE INDEX IF NOT EXISTS idx_raw_listings_scraped_at ON raw.listings(scraped_at DESC)'',
      ''CREATE INDEX IF NOT EXISTS idx_raw_listings_city ON raw.listings(city)'',
      ''CREATE INDEX IF NOT EXISTS idx_raw_listings_province ON raw.listings(province)'',
      ''CREATE INDEX IF NOT EXISTS idx_raw_listings_price ON raw.listings(price_eur) WHERE price_eur IS NOT NULL'',
      ''CREATE INDEX IF NOT EXISTS idx_raw_listings_url ON raw.listings(url)'',
      ''CREATE OR REPLACE VIEW raw.listings_latest AS'',
      ''CREATE TABLE IF NOT EXISTS staging.price_history ('',
      ''CREATE INDEX IF NOT EXISTS idx_price_history_listing ON staging.price_history(listing_id)'',
      ''COMMENT ON SCHEMA raw IS 'Raw data as ingested from Imovirtual'' @ [CHR 0x27],
      ''COMMENT ON SCHEMA staging IS 'Intermediate transformations via dbt'' @ [CHR 0x27],
      ''COMMENT ON SCHEMA marts IS 'Final analytics-ready tables via dbt'' @ [CHR 0x27],
      ''COMMENT ON TABLE raw.listings IS 'All listing snapshots - one row per listing per scrape date'' @ [CHR 0x27],
      ''COMMENT ON VIEW raw.listings_latest IS 'Latest snapshot of each listing'' @ [CHR 0x27]] \<and>
   count_statements ''CREATE SCHEMA'' HOUSING_SCHEMA_SQL = 3 \<and>
   count_statements ''GRANT'' HOUSING_SCHEMA_SQL = 3 \<and>
   count_statements ''CREATE TABLE'' HOUSING_SCHEMA_SQL = 2 \<and>
   count_statements ''CREATE INDEX'' HOUSING_SCHEMA_SQL = 6 \<and>
   count_statements ''CREATE OR REPLACE VIEW'' HOUSING_SCHEMA_SQL = 1 \<and>
   count_statements ''COMMENT ON SCHEMA'' HOUSING_SCHEMA_SQL = 3 \<and>
   count_statements ''COMMENT ON TABLE'' HOUSING_SCHEMA_SQL = 1 \<and>
   count_statements ''COMMENT ON VIEW'' HOUSING_SCHEMA_SQL = 1 \<and>
   statement_with ''CREATE TABLE IF NOT EXISTS raw.listings''
     ''PRIMARY KEY (listing_id, scraped_at)'' HOUSING_SCHEMA_SQL \<and>
   statement_with ''CREATE OR REPLACE VIEW raw.listings_latest''
     ''SELECT DISTINCT ON (listing_id)'' HOUSING_SCHEMA_SQL \<and>
   statement_with ''CREATE OR REPLACE VIEW raw.listings_latest''
     ''ORDER BY listing_id, scraped_at DESC'' HOUSING_SCHEMA_SQL \<and>
   statement_with ''CREATE TABLE IF NOT EXISTS staging.price_history''
     ''UNIQUE (listing_id, scraped_at)'' HOUSING_SCHEMA_SQL"
proof (intro conjI)
  show "map first_line (sql_statements HOUSING_SCHEMA_SQL) =
     [''CREATE SCHEMA IF NOT EXISTS raw'',
      ''CREATE SCHEMA IF NOT EXISTS staging'',
      ''CREATE SCHEMA IF NOT EXISTS marts'',
      ''GRANT ALL PRIVILEGES ON SCHEMA raw TO dataeng'',
      ''GRANT ALL PRIVILEGES ON SCHEMA staging TO dataeng'',
      ''GRANT ALL PRIVILEGES ON SCHEMA marts TO dataeng'',
      ''CREATE TABLE IF NOT EXISTS raw.listings ('',
      ''CREATE INDEX IF NOT EXISTS idx_raw_listings_scraped_at ON raw.listings(scraped_at DESC)'',
      ''CREATE INDEX IF NOT EXISTS idx_raw_listings_city ON raw.listings(city)'',
      ''CREATE INDEX IF NOT EXISTS idx_raw_listings_province ON raw.listings(province)'',
      ''CREATE INDEX IF NOT EXISTS idx_raw_listings_price ON raw.listings(price_eur) WHERE price_eur IS NOT NULL'',
      ''CREATE INDEX IF NOT EXISTS idx_raw_listings_url ON raw.listings(url)'',
      ''CREATE OR REPLACE VIEW raw.listings_latest AS'',
      ''CREATE TABLE IF NOT EXISTS staging.price_history ('',
      ''CREATE INDEX IF NOT EXISTS idx_price_history_listing ON staging.price_history(listing_id)'',
      ''COMMENT ON SCHEMA raw IS 'Raw data as ingested from Imovirtual'' @ [CHR 0x27],
      ''COMMENT ON SCHEMA staging IS 'Intermediate transformations via dbt'' @ [CHR 0x27],
      ''COMMENT ON SCHEMA marts IS 'Final analytics-ready tables via dbt'' @ [CHR 0x27],
      ''COMMENT ON TABLE raw.listings IS 'All listing snapshots - one row per listing per scrape date'' @ [CHR 0x27],
      ''COMMENT ON VIEW raw.listings_latest IS 'Latest snapshot of each listing'' @ [CHR 0x27]]"
    by (simp add: housing_eval) (simp add: first_line_def)
  show "count_statements ''CREATE SCHEMA'' HOUSING_SCHEMA_SQL = 3"
    by (simp add: housing_eval)
  show "count_statements ''GRANT'' HOUSING_SCHEMA_SQL = 3"
    by (simp add: housing_eval)
  show "count_statements ''CREATE TABLE'' HOUSING_SCHEMA_SQL = 2"
    by (simp add: housing_eval)
  show "count_statements ''CREATE INDEX'' HOUSING_SCHEMA_SQL = 6"
    by (simp add: housing_eval)
  show "count_statements ''CREATE OR REPLACE VIEW'' HOUSING_SCHEMA_SQL = 1"
    by (simp add: housing_eval)
  show "count_statements ''COMMENT ON SCHEMA'' HOUSING_SCHEMA_SQL = 3"
    by (simp add: housing_eval)
  show "count_statements ''COMMENT ON TABLE'' HOUSING_SCHEMA_SQL = 1"
    by (simp add: housing_eval)
  show "count_statements ''COMMENT ON VIEW'' HOUSING_SCHEMA_SQL = 1"
    by (simp add: housing_eval)
  show "statement_with ''CREATE TABLE IF NOT EXISTS raw.listings''
     ''PRIMARY KEY (listing_id, scraped_at)'' HOUSING_SCHEMA_SQL"
    by (simp add: housing_eval)
  show "statement_with ''CREATE OR REPLACE VIEW raw.listings_latest''
     ''SELECT DISTINCT ON (listing_id)'' HOUSING_SCHEMA_SQL"
    by (simp add: housing_eval)
  show "statement_with ''CREATE OR REPLACE VIEW raw.listings_latest''
     ''ORDER BY listing_id, scraped_at DESC'' HOUSING_SCHEMA_SQL"
    by (simp add: housing_eval)
  show "statement_with ''CREATE TABLE IF NOT EXISTS staging.price_history''
     ''UNIQUE (listing_id, scraped_at)'' HOUSING_SCHEMA_SQL"
    by (simp add: housing_eval)
qed

subsection \<open>C8: the football schema\<close>

text \<open>
  C8. The football text is six statements: one that drops the table
  \<^verbatim>\<open>raw_pl_matches\<close>, one that creates it, and four that create an index on it, on
  the columns \<^verbatim>\<open>match_date\<close>, \<^verbatim>\<open>home_team\<close>, \<^verbatim>\<open>away_team\<close> and
  \<^verbatim>\<open>league_division\<close>. So it creates five objects: exactly one table and exactly
  four indexes.
\<close>

theorem football_schema_objects:
  "map first_line (sql_statements FOOTBALL_SCHEMA_SQL) =
     [''DROP TABLE IF EXISTS raw_pl_matches CASCADE'',
      ''CREATE TABLE raw_pl_matches ('',
      ''CREATE INDEX idx_raw_pl_matches_date ON raw_pl_matches(match_date)'',
      ''CREATE INDEX idx_raw_pl_matches_home ON raw_pl_matches(home_team)'',
      ''CREATE INDEX idx_raw_pl_matches_away ON raw_pl_matches(away_team)'',
      ''CREATE INDEX idx_raw_pl_matches_league ON raw_pl_matches(league_division)''] \<and>
   count_statements ''CREATE'' FOOTBALL_SCHEMA_SQL = 5 \<and>
   count_statements ''CREATE TABLE'' FOOTBALL_SCHEMA_SQL = 1 \<and>
   count_statements ''CREATE INDEX'' FOOTBALL_SCHEMA_SQL = 4 \<and>
   filter (starts_with ''CREATE INDEX'') (sql_statements FOOTBALL_SCHEMA_SQL) =
     [''CREATE INDEX idx_raw_pl_matches_date ON raw_pl_matches(match_date)'',
      ''CREATE INDEX idx_raw_pl_matches_home ON raw_pl_matches(home_team)'',
      ''CREATE INDEX idx_raw_pl_matches_away ON raw_pl_matches(away_team)'',
      ''CREATE INDEX idx_raw_pl_matches_league ON raw_pl_matches(league_division)'']"
proof (intro conjI)
  show "map first_line (sql_statements FOOTBALL_SCHEMA_SQL) =
     [''DROP TABLE IF EXISTS raw_pl_matches CASCADE'',
      ''CREATE TABLE raw_pl_matches ('',
      ''CREATE INDEX idx_raw_pl_matches_date ON raw_pl_matches(match_date)'',
      ''CREATE INDEX idx_raw_pl_matches_home ON raw_pl_matches(home_team)'',
      ''CREATE INDEX idx_raw_pl_matches_away ON raw_pl_matches(away_team)'',
      ''CREATE INDEX idx_raw_pl_matches_league ON raw_pl_matches(league_division)'']"
    by (simp add: football_eval) (simp add: first_line_def)
  show "count_statements ''CREATE'' FOOTBALL_SCHEMA_SQL = 5"
    by (simp add: football_eval)
  show "count_statements ''CREATE TABLE'' FOOTBALL_SCHEMA_SQL = 1"
    by (simp add: football_eval)
  show "count_statements ''CREATE INDEX'' FOOTBALL_SCHEMA_SQL = 4"
    by (simp add: football_eval)
  show "filter (starts_with ''CREATE INDEX'') (sql_statements FOOTBALL_SCHEMA_SQL) =
     [''CREATE INDEX idx_raw_pl_matches_date ON raw_pl_matches(match_date)'',
      ''CREATE INDEX idx_raw_pl_matches_home ON raw_pl_matches(home_team)'',
      ''CREATE INDEX idx_raw_pl_matches_away ON raw_pl_matches(away_team)'',
      ''CREATE INDEX idx_raw_pl_matches_league ON raw_pl_matches(league_division)'']"
    by (simp add: football_eval)
qed

subsection \<open>C9: the statement text does not depend on the environment\<close>

text \<open>
  C9. For every list of environment tags and in every world, every command the football
  loop runs carries the same text, \<^verbatim>\<open>FOOTBALL_SCHEMA_SQL\<close>, and every command the
  housing loop runs carries \<^verbatim>\<open>HOUSING_SCHEMA_SQL\<close>: the tag enters the name of the
  database and nothing else. In a run of the script the databases and the texts sent to
  them are the first ones of the list of targets, where the development and the
  production database of a dataset stand with the same text.
\<close>

theorem ddl_independent_of_environment:
  "(\<exists>n. map (sql_of \<circ> fst) (history (final (football_loop run envs s))) =
         map (sql_of \<circ> fst) (history s) @ replicate n FOOTBALL_SCHEMA_SQL) \<and>
   (\<exists>n. map (sql_of \<circ> fst) (history (final (housing_loop run envs s))) =
         map (sql_of \<circ> fst) (history s) @ replicate n HOUSING_SCHEMA_SQL) \<and>
   (\<exists>n. map (\<lambda>(cmd, r). (target_of cmd, sql_of cmd)) (history (final (script run w))) =
         take n [(''football_data_dev'', FOOTBALL_SCHEMA_SQL),
                 (''football_data_prod'', FOOTBALL_SCHEMA_SQL),
                 (''portugal_houses_dev'', HOUSING_SCHEMA_SQL),
                 (''portugal_houses_prod'', HOUSING_SCHEMA_SQL)])"
proof (intro conjI)
  obtain n where
    "map fst (history (final (football_loop run envs s))) =
       map fst (history s) @
       map (\<lambda>env. psql_cmd (''football_data_'' @ env) FOOTBALL_SCHEMA_SQL) (take n envs)"
    using football_loop_commands [of run envs s] by (elim exE)
  then have "map sql_of (map fst (history (final (football_loop run envs s)))) =
      map sql_of (map fst (history s) @
        map (\<lambda>env. psql_cmd (''football_data_'' @ env) FOOTBALL_SCHEMA_SQL) (take n envs))"
    by (rule arg_cong)
  then show "\<exists>n. map (sql_of \<circ> fst) (history (final (football_loop run envs s))) =
         map (sql_of \<circ> fst) (history s) @ replicate n FOOTBALL_SCHEMA_SQL"
    by (intro exI [of _ "length (take n envs)"])
      (simp add: sql_of_psql_cmd comp_def map_replicate_const)
next
  obtain n where
    "map fst (history (final (housing_loop run envs s))) =
       map fst (history s) @
       map (\<lambda>env. psql_cmd (''portugal_houses_'' @ env) HOUSING_SCHEMA_SQL) (take n envs)"
    using housing_loop_commands [of run envs s] by (elim exE)
  then have "map sql_of (map fst (history (final (housing_loop run envs s)))) =
      map sql_of (map fst (history s) @
        map (\<lambda>env. psql_cmd (''portugal_houses_'' @ env) HOUSING_SCHEMA_SQL) (take n envs))"
    by (rule arg_cong)
  then show "\<exists>n. map (sql_of \<circ> fst) (history (final (housing_loop run envs s))) =
         map (sql_of \<circ> fst) (history s) @ replicate n HOUSING_SCHEMA_SQL"
    by (intro exI [of _ "length (take n envs)"])
      (simp add: sql_of_psql_cmd comp_def map_replicate_const)
next
  obtain n where
    "map fst (history (final (script run w))) =
       map (\<lambda>(db, sql). psql_cmd db sql) (take n targets)"
    using script_commands [of run w] by (elim exE)
  then have "map (\<lambda>cmd. (target_of cmd, sql_of cmd)) (map fst (history (final (script run w)))) =
      map (\<lambda>cmd. (target_of cmd, sql_of cmd)) (map (\<lambda>(db, sql). psql_cmd db sql) (take n targets))"
    by (rule arg_cong)
  then show "\<exists>n. map (\<lambda>(cmd, r). (target_of cmd, sql_of cmd)) (history (final (script run w))) =
         take n [(''football_data_dev'', FOOTBALL_SCHEMA_SQL),
                 (''football_data_prod'', FOOTBALL_SCHEMA_SQL),
                 (''portugal_houses_dev'', HOUSING_SCHEMA_SQL),
                 (''portugal_houses_prod'', HOUSING_SCHEMA_SQL)]"
    by (intro exI [of _ n])
      (simp add: target_of_psql_cmd sql_of_psql_cmd comp_def targets_def case_prod_unfold)
qed

subsection \<open>C10: only the return code decides\<close>

text \<open>
  C10. Two invocations whose processes exit with the same status get the same answer
  from \<^verbatim>\<open>execute_sql\<close>, whatever the two processes wrote to their output streams.
  A process that exits with a nonzero status is reported as a failure, also when its
  standard error is empty; a process that exits with status 0 is reported as a success,
  also when its standard error is not empty, and then nothing is printed: the state
  changes by the world and the history only.
\<close>

theorem execute_sql_returncode_only:
  "run (world s) (psql_cmd database sql) = (result, w') \<Longrightarrow>
   run' (world s) (psql_cmd database sql) = (result', w'') \<Longrightarrow>
   returncode result' = returncode result \<Longrightarrow>
   fst (execute_sql run' database sql s) = fst (execute_sql run database sql s) \<and>
   (returncode result \<noteq> 0 \<longrightarrow> \<not> fst (execute_sql run database sql s)) \<and>
   (returncode result = 0 \<longrightarrow>
      execute_sql run database sql s =
        (True, s\<lparr>world := w', history := history s @ [(psql_cmd database sql, result)]\<rparr>))"
  by (simp add: execute_sql_def Let_def)

text \<open>
  A process that exits with status 0 and a notice on its standard error, beside one that
  exits with status 0 and writes nothing; and a process that exits with status 1 and an
  empty standard error.
\<close>

theorem execute_sql_returncode_only_witness:
  "fst (execute_sql always_ok ''football_data_dev'' FOOTBALL_SCHEMA_SQL (initial ())) \<and>
   fst (execute_sql (exits_silently 0) ''football_data_dev'' FOOTBALL_SCHEMA_SQL (initial ())) \<and>
   console (snd (execute_sql always_ok ''football_data_dev'' FOOTBALL_SCHEMA_SQL (initial ()))) = [] \<and>
   \<not> fst (execute_sql (exits_silently 1) ''football_data_dev'' FOOTBALL_SCHEMA_SQL (initial ()))"
proof -
  let ?c = "psql_cmd ''football_data_dev'' FOOTBALL_SCHEMA_SQL"
  have a: "always_ok (world (initial ())) ?c =
      (\<lparr>returncode = 0, stdout = ''CREATE INDEX'',
        stderr = ''NOTICE:  table does not exist, skipping''\<rparr>, ())"
    by (simp add: always_ok_def)
  have b: "exits_silently 0 (world (initial ())) ?c =
      (\<lparr>returncode = 0, stdout = '''', stderr = ''''\<rparr>, ())"
    by (simp add: exits_silently_def)
  have c: "exits_silently 1 (world (initial ())) ?c =
      (\<lparr>returncode = 1, stdout = '''', stderr = ''''\<rparr>, ())"
    by (simp add: exits_silently_def)
  from execute_sql_returncode_only
         [where run = always_ok and run' = "exits_silently 0" and s = "initial ()", OF a b]
       execute_sql_returncode_only
         [where run = "exits_silently 1" and run' = "exits_silently 1" and s = "initial ()", OF c c]
  show ?thesis
    by (simp add: initial_def)
qed

end
